theory Spec2Isabelle
  imports Main
begin

section \<open>Values\<close>

text \<open>
  Property keys. The source types a key as \<open>string | number\<close>; a root node has the key
  \<open>undefined\<close>, and \<open>deleteFn\<close> can pass \<open>undefined\<close> on to \<open>setKey\<close>, so
  \<open>undefined\<close> is a key of the model too, as is the symbol \<open>symbolUndef\<close>, which \<open>set\<close>
  passes as the key of a root. A canonical array index is always \<open>KNum\<close>.
\<close>

datatype key = KStr string | KNum nat | KUndef | KSymbolUndef

text \<open>
  Plain JavaScript values. Objects, arrays and functions carry a reference number, the
  identity that \<open>===\<close> compares; numbers are integers (no NaN, no fractions). An object
  is its list of own properties in insertion order; inherited properties are not
  represented. The values form a tree: an object stored at two places is two copies, so
  a store through one place does not show at the other.
\<close>

datatype val =
    VUndef
  | VNull
  | VBool bool
  | VNum int
  | VStr string
  | VFun nat
  | VObj nat "(key \<times> val) list"
  | VArr nat "val list"

text \<open>
  What a caller hands to a write: a plain value, an observable (whose \<open>get()\<close> yields the
  given value), or the delete sentinel \<open>symbolUndef\<close>.
\<close>

datatype arg = Plain val | Observable val | SymbolUndef

text \<open>\<open>a === b\<close>: by value on primitives, by reference on objects, arrays and functions.\<close>

fun strict_eq :: "val \<Rightarrow> val \<Rightarrow> bool" where
  "strict_eq (VObj r _) (VObj s _) = (r = s)"
| "strict_eq (VArr r _) (VArr s _) = (r = s)"
| "strict_eq (VFun r) (VFun s) = (r = s)"
| "strict_eq (VObj _ _) _ = False"
| "strict_eq _ (VObj _ _) = False"
| "strict_eq (VArr _ _) _ = False"
| "strict_eq _ (VArr _ _) = False"
| "strict_eq a b = (a = b)"

text \<open>JavaScript truthiness, as in \<open>if (p)\<close> and \<open>!value\<close>.\<close>

fun truthy :: "val \<Rightarrow> bool" where
  "truthy VUndef = False"
| "truthy VNull = False"
| "truthy (VBool b) = b"
| "truthy (VNum n) = (n \<noteq> 0)"
| "truthy (VStr s) = (s \<noteq> [])"
| "truthy _ = True"

text \<open>
  Modelled from the spec: \<open>isArray\<close>, \<open>isObject\<close> and \<open>isFunction\<close> of \<open>./is\<close> are not
  among the sources. The spec uses them by name: an array, an object that is neither
  \<open>null\<close> nor an array, a function.
\<close>

fun isArray :: "val \<Rightarrow> bool" where
  "isArray (VArr _ _) = True"
| "isArray _ = False"

fun isObject :: "val \<Rightarrow> bool" where
  "isObject (VObj _ _) = True"
| "isObject _ = False"

fun isFunction :: "val \<Rightarrow> bool" where
  "isFunction (VFun _) = True"
| "isFunction _ = False"

text \<open>
  \<open>isPrimitive\<close> comes from \<open>./is\<close>, which is not among the sources. Strings, numbers and
  booleans are primitive, objects, arrays and functions are not; whether \<open>undefined\<close> and
  \<open>null\<close> count is the parameter \<open>np\<close>, so every result below holds for both readings.
\<close>

fun isPrimitive :: "bool \<Rightarrow> val \<Rightarrow> bool" where
  "isPrimitive np VUndef = np"
| "isPrimitive np VNull = np"
| "isPrimitive np (VBool _) = True"
| "isPrimitive np (VNum _) = True"
| "isPrimitive np (VStr _) = True"
| "isPrimitive np _ = False"

text \<open>
  \<open>v?.[k]\<close> on own properties: a field of an object, an element or the length of an
  array, a character or the length of a string; \<open>undefined\<close> everywhere else. The key
  \<open>undefined\<close> reads the property named "undefined".
\<close>

fun lookup :: "(key \<times> val) list \<Rightarrow> key \<Rightarrow> val" where
  "lookup [] k = VUndef"
| "lookup ((k', v) # kvs) k = (if k' = k then v else lookup kvs k)"

fun normKey :: "key \<Rightarrow> key" where
  "normKey KUndef = KStr ''undefined''"
| "normKey k = k"

fun getProp :: "val \<Rightarrow> key \<Rightarrow> val" where
  "getProp (VObj _ kvs) k = lookup kvs (normKey k)"
| "getProp (VArr _ xs) (KNum i) = (if i < length xs then xs ! i else VUndef)"
| "getProp (VArr _ xs) (KStr s) = (if s = ''length'' then VNum (int (length xs)) else VUndef)"
| "getProp (VStr s) (KNum i) = (if i < length s then VStr [s ! i] else VUndef)"
| "getProp (VStr s) (KStr t) = (if t = ''length'' then VNum (int (length s)) else VUndef)"
| "getProp _ _ = VUndef"

text \<open>\<open>Object.keys(v)\<close> paired with the values, in order.\<close>

fun entries :: "val \<Rightarrow> (key \<times> val) list" where
  "entries (VObj _ kvs) = kvs"
| "entries (VArr _ xs) = zip (map KNum [0..<length xs]) xs"
| "entries (VStr s) = zip (map KNum [0..<length s]) (map (\<lambda>c. VStr [c]) s)"
| "entries _ = []"

section \<open>Nodes, the root and the engine state\<close>

text \<open>
  A node of the tree (\<open>NodeValue\<close>): parent and key linkage, the lazily filled map of
  children, and the listener registry (\<open>None\<close> while no listener was ever attached; the
  source only tests it for truthiness).
\<close>

record node =
  nparent :: "nat option"
  nkey :: key
  children :: "key \<Rightarrow> nat option"
  listeners :: "nat list option"

text \<open>
  Calls into the collaborators that are not among the sources (\<open>./notify\<close>,
  \<open>./tracking\<close>, the console) are recorded in the order they are made, with their
  arguments. So are \<open>Reflect.set\<close> and \<open>Reflect.deleteProperty\<close> on a node object, whose
  effect on the node's own fields is not represented.
\<close>

datatype event =
    Notify nat val val int bool
  | DoNotify nat val "key list" val val int bool
  | Untrack nat
  | UpdateTracking nat bool
  | ConsoleError
  | ReflectSet nat key arg
  | ReflectDelete nat key

text \<open>
  One tree: the root wrapper (\<open>_\<close>, \<open>safeMode\<close>, \<open>locked\<close>, \<open>activate\<close>), the nodes by
  id with the global \<open>nextNodeID\<close>, the module flags \<open>inSet\<close> and \<open>inAssign\<close>, the depth
  of \<open>beginBatch\<close>/\<open>endBatch\<close>, \<open>tracking.isTracking\<close>, the updater calls made so far,
  the number of runs of the activate hook, and the next free object reference.
\<close>

record state =
  rval :: val
  safeMode :: nat
  locked :: bool
  activate :: "nat option"
  nodes :: "nat \<Rightarrow> node"
  nextNodeID :: nat
  inSet :: bool
  inAssign :: bool
  batchDepth :: nat
  isTracking :: bool
  events :: "event list"
  calls :: "(nat \<times> val) list"
  activations :: nat
  nextRef :: nat

text \<open>
  The environment: \<open>nullish\<close> is the parameter of \<open>isPrimitive\<close>, \<open>callFn f v\<close> the
  result of calling the function value \<open>f\<close> on \<open>v\<close>, \<open>development\<close> the build mode, and
  \<open>runActivate h\<close> the effect of the activate hook \<open>h\<close> on the state.
\<close>

record env =
  nullish :: bool
  callFn :: "nat \<Rightarrow> val \<Rightarrow> val"
  development :: bool
  runActivate :: "nat \<Rightarrow> state \<Rightarrow> state"

datatype error = LockedError | TypeError

definition emit :: "event \<Rightarrow> state \<Rightarrow> state" where
  "emit e st = st\<lparr>events := events st @ [e]\<rparr>"

text \<open>
  Modelled from the spec: \<open>beginBatch\<close> and \<open>endBatch\<close> of \<open>./batching\<close> are not among the
  sources. They are "reference-counted"; the dispatch of deferred notifications at depth 0
  is outside this model, which records the calls of \<open>notify\<close> and \<open>doNotify\<close> as made.
\<close>

definition beginBatch :: "state \<Rightarrow> state" where
  "beginBatch st = st\<lparr>batchDepth := Suc (batchDepth st)\<rparr>"

definition endBatch :: "state \<Rightarrow> state" where
  "endBatch st = st\<lparr>batchDepth := batchDepth st - 1\<rparr>"

section \<open>The primitive wrapper\<close>

text \<open>\<open>ObservablePrimitiveClass.peek\<close>: runs and clears the activate hook, returns \<open>root._\<close>.\<close>

definition peek :: "env \<Rightarrow> state \<Rightarrow> val \<times> state" where
  "peek E st =
     (case activate st of
        Some h \<Rightarrow>
          (let st1 = runActivate E h st;
               st2 = st1\<lparr>activations := Suc (activations st1)\<rparr>;
               st3 = st2\<lparr>activate := None\<rparr>
           in (rval st3, st3))
      | None \<Rightarrow> (rval st, st))"

text \<open>\<open>ObservablePrimitiveClass.get\<close> on the wrapper of node \<open>n\<close>.\<close>

definition get :: "env \<Rightarrow> state \<Rightarrow> nat \<Rightarrow> val \<times> state" where
  "get E st n = peek E (emit (UpdateTracking n False) st)"

text \<open>
  \<open>ObservablePrimitiveClass.set\<close> on the wrapper of node \<open>n\<close>. A throw is \<open>Inl\<close> with the
  state as the exception leaves it.
\<close>

definition primitive_set :: "env \<Rightarrow> state \<Rightarrow> nat \<Rightarrow> val \<Rightarrow> (error \<times> state) + state" where
  "primitive_set E st n value0 =
     (let (value, st1) =
            (case value0 of
               VFun f \<Rightarrow> (callFn E f (rval st), st\<lparr>calls := calls st @ [(f, rval st)]\<rparr>)
             | _ \<Rightarrow> (value0, st))
      in if locked st1 then Inl (LockedError, st1)
         else
           (let prev = rval st1;
                st2 = st1\<lparr>rval := value\<rparr>
            in Inr (emit (DoNotify n value [] value prev 0 False) st2)))"

section \<open>Node helpers\<close>

text \<open>
  Modelled from the spec: \<open>getChildNode\<close> of \<open>./globals\<close> is not among the sources.
  "Returns the child Node for key, creating and caching it if absent"; a new node takes
  the next id of the global counter.
\<close>

definition getChildNode :: "state \<Rightarrow> nat \<Rightarrow> key \<Rightarrow> nat \<times> state" where
  "getChildNode st n k =
     (case children (nodes st n) k of
        Some c \<Rightarrow> (c, st)
      | None \<Rightarrow>
          (let c = nextNodeID st;
               ns1 = (nodes st)(c := \<lparr>nparent = Some n, nkey = k,
                                      children = (\<lambda>_. None), listeners = None\<rparr>);
               ns2 = ns1(n := (ns1 n)\<lparr>children := (children (ns1 n))(k \<mapsto> c)\<rparr>)
           in (c, st\<lparr>nodes := ns2, nextNodeID := Suc c\<rparr>)))"

text \<open>
  The keys from the root down to a node, following the parent links while the key is
  defined. Ids are handed out in increasing order, so a parent's id is below its child's;
  the walk stops at a link that does not go down, which makes it total.
\<close>

function nodePath :: "(nat \<Rightarrow> node) \<Rightarrow> nat \<Rightarrow> key list" where
  "nodePath ns n =
     (if nkey (ns n) = KUndef then []
      else (case nparent (ns n) of
              None \<Rightarrow> [nkey (ns n)]
            | Some p \<Rightarrow> (if p < n then nodePath ns p @ [nkey (ns n)] else [nkey (ns n)])))"
  by pat_completeness auto
termination
  by (relation "measure (\<lambda>(ns, n). n)") auto

declare nodePath.simps [simp del]

text \<open>
  Modelled from the spec: \<open>getNodeValue\<close> of \<open>./globals\<close> is not among the sources.
  "Resolves the current raw value at this node's position by walking from the root through
  parent/key chain"; the walk stays at a falsy value instead of reading a property of it.
\<close>

definition valueAt :: "val \<Rightarrow> key list \<Rightarrow> val" where
  "valueAt v ks = foldl (\<lambda>child k. if truthy child then getProp child k else child) v ks"

definition getNodeValue :: "state \<Rightarrow> nat \<Rightarrow> val" where
  "getNodeValue st n = valueAt (rval st) (nodePath (nodes st) n)"

text \<open>
  \<open>container[k] = v\<close> in strict mode. A primitive container throws. A named property on
  an array or any property on a function cannot be represented in \<open>val\<close> and is reported
  as the same error. Writing past the end of an array fills the gap with \<open>undefined\<close>.
\<close>

fun update :: "(key \<times> val) list \<Rightarrow> key \<Rightarrow> val \<Rightarrow> (key \<times> val) list" where
  "update [] k v = [(k, v)]"
| "update ((k', v') # kvs) k v = (if k' = k then (k, v) # kvs else (k', v') # update kvs k v)"

fun setProp :: "val \<Rightarrow> key \<Rightarrow> val \<Rightarrow> val option" where
  "setProp (VObj r kvs) k v = Some (VObj r (update kvs (normKey k) v))"
| "setProp (VArr r xs) (KNum i) v =
     Some (VArr r (if i < length xs then xs[i := v]
                   else xs @ replicate (i - length xs) VUndef @ [v]))"
| "setProp _ _ _ = None"

text \<open>
  \<open>delete container[k]\<close> in strict mode: removes an own property of an object, leaves a
  hole in an array, throws on a non-configurable property (the length, a character of a
  string), and does nothing otherwise.
\<close>

fun delProp :: "val \<Rightarrow> key \<Rightarrow> val option" where
  "delProp (VObj r kvs) k = Some (VObj r (filter (\<lambda>kv. fst kv \<noteq> normKey k) kvs))"
| "delProp (VArr r xs) (KNum i) = Some (VArr r (if i < length xs then xs[i := VUndef] else xs))"
| "delProp (VArr r xs) (KStr s) = (if s = ''length'' then None else Some (VArr r xs))"
| "delProp (VStr s) (KNum i) = (if i < length s then None else Some (VStr s))"
| "delProp (VStr s) (KStr t) = (if t = ''length'' then None else Some (VStr s))"
| "delProp v _ = Some v"

text \<open>
  Modelled from the spec: \<open>ensureNodeValue\<close> of \<open>./globals\<close> is not among the sources, and
  the spec does not describe it. It returns the value at the node, first storing a fresh
  \<open>{}\<close> at every position on the way that holds a falsy value. \<open>ensureAt v ks r\<close> does
  this below the value \<open>v\<close> along the keys \<open>ks\<close> with \<open>r\<close> the next free reference, and
  tells whether anything was stored; \<open>None\<close> is the TypeError of storing into a primitive,
  which happens before any other store.
\<close>

fun ensureAt :: "val \<Rightarrow> key list \<Rightarrow> nat \<Rightarrow> (val \<times> nat \<times> bool) option" where
  "ensureAt v [] r = Some (if truthy v then (v, r, False) else (VObj r [], Suc r, True))"
| "ensureAt v (k # ks) r =
     (let v' = (if truthy v then v else VObj r []);
          r' = (if truthy v then r else Suc r)
      in (case ensureAt (getProp v' k) ks r' of
            None \<Rightarrow> None
          | Some (c, r'', changed) \<Rightarrow>
              (if changed
               then (case setProp v' k c of
                       None \<Rightarrow> None
                     | Some v'' \<Rightarrow> Some (v'', r'', True))
               else Some (v', r'', \<not> truthy v))))"

definition ensureNodeValue :: "state \<Rightarrow> nat \<Rightarrow> state option" where
  "ensureNodeValue st n =
     (case ensureAt (rval st) (nodePath (nodes st) n) (nextRef st) of
        None \<Rightarrow> None
      | Some (v, r, _) \<Rightarrow> Some (st\<lparr>rval := v, nextRef := r\<rparr>))"

text \<open>
  The store \<open>parentValue[key] = \<dots>\<close> (or the delete) into the value a node stands for:
  the root value is rebuilt along the node's keys with \<open>f\<close> applied at the end.
\<close>

fun updateAt :: "val \<Rightarrow> key list \<Rightarrow> (val \<Rightarrow> val option) \<Rightarrow> val option" where
  "updateAt v [] f = f v"
| "updateAt v (k # ks) f =
     (case updateAt (getProp v k) ks f of
        None \<Rightarrow> None
      | Some c \<Rightarrow> setProp v k c)"

section \<open>The recursive diff\<close>

text \<open>The decimal string of an array index, as \<open>Object.keys\<close> reports it.\<close>

fun string_of_nat :: "nat \<Rightarrow> string" where
  "string_of_nat n =
     (if n div 10 = 0 then [char_of (n + 48)]
      else string_of_nat (n div 10) @ [char_of (n mod 10 + 48)])"

fun keyString :: "key \<Rightarrow> string" where
  "keyString (KStr s) = s"
| "keyString (KNum i) = string_of_nat i"
| "keyString KUndef = ''undefined''"
| "keyString KSymbolUndef = ''Symbol()''"

text \<open>
  \<open>keys.includes(key)\<close> with \<open>keys = isArr ? obj : obj ? Object.keys(obj) : []\<close>: for an
  array \<open>obj\<close> the source searches the elements of the array for the key string.
\<close>

fun keysIncludes :: "val \<Rightarrow> key \<Rightarrow> bool" where
  "keysIncludes (VArr _ xs) k = (VStr (keyString k) \<in> set xs)"
| "keysIncludes obj k = (truthy obj \<and> k \<in> set (map fst (entries obj)))"

text \<open>The identity field, sniffed from the first previous element.\<close>

definition sniffIdField :: "val \<Rightarrow> string option" where
  "sniffIdField p =
     (if getProp p (KStr ''id'') \<noteq> VUndef then Some ''id''
      else if getProp p (KStr ''_id'') \<noteq> VUndef then Some ''_id''
      else if getProp p (KStr ''__id'') \<noteq> VUndef then Some ''__id''
      else None)"

text \<open>
  \<open>keyMap\<close>: the latest \<open>set\<close> of an identity is at the front, so the first match of a
  search is the entry a \<open>Map\<close> would hold.
\<close>

fun buildKeyMap :: "string \<Rightarrow> val list \<Rightarrow> nat \<Rightarrow> (val \<times> nat) list \<Rightarrow> (val \<times> nat) list" where
  "buildKeyMap f [] i m = m"
| "buildKeyMap f (p # ps) i m =
     buildKeyMap f ps (Suc i) (if truthy p then (getProp p (KStr f), i) # m else m)"

fun keyMap_get :: "(val \<times> nat) list \<Rightarrow> val \<Rightarrow> nat option" where
  "keyMap_get [] x = None"
| "keyMap_get ((y, i) # m) x = (if strict_eq y x then Some i else keyMap_get m x)"

text \<open>The first part of \<open>updateNodes\<close>: \<open>idField\<close> and \<open>keyMap\<close> (with it, \<open>moved\<close>).\<close>

definition idFieldOf :: "val \<Rightarrow> val \<Rightarrow> string option" where
  "idFieldOf obj prevValue =
     (case (obj, prevValue) of
        (VArr _ _, VArr _ ps) \<Rightarrow>
          (if length ps > 0 \<and> truthy (ps ! 0) then sniffIdField (ps ! 0) else None)
      | _ \<Rightarrow> None)"

definition keyMapOf :: "val \<Rightarrow> val \<Rightarrow> (val \<times> nat) list option" where
  "keyMapOf obj prevValue =
     (case (idFieldOf obj prevValue, prevValue) of
        (Some f, VArr _ ps) \<Rightarrow> Some (buildKeyMap f ps 0 [])
      | _ \<Rightarrow> None)"

definition setNodeKey :: "nat \<Rightarrow> key \<Rightarrow> state \<Rightarrow> state" where
  "setNodeKey c k st = st\<lparr>nodes := (nodes st)(c := (nodes st c)\<lparr>nkey := k\<rparr>)\<rparr>"

definition setChild :: "nat \<Rightarrow> state \<Rightarrow> key \<times> nat \<Rightarrow> state" where
  "setChild p st kc =
     st\<lparr>nodes := (nodes st)(p := (nodes st p)\<lparr>children := (children (nodes st p))(fst kc \<mapsto> snd kc)\<rparr>)\<rparr>"

text \<open>
  A measure of values for the recursion: every entry of a value weighs less than the
  value. A character of a string is a string again, so strings weigh nothing as entries;
  the diff never descends into them.
\<close>

fun vsize :: "val \<Rightarrow> nat" where
  "vsize (VObj r kvs) = Suc (sum_list (map (\<lambda>kv. vsize (snd kv)) kvs))"
| "vsize (VArr r xs) = Suc (sum_list (map vsize xs))"
| "vsize _ = 1"

fun eweight :: "val \<Rightarrow> nat" where
  "eweight (VStr s) = 0"
| "eweight v = vsize v"

definition esize :: "(key \<times> val) list \<Rightarrow> nat" where
  "esize es = sum_list (map (\<lambda>kv. eweight (snd kv)) es)"

text \<open>
  \<open>hasADiff = !isArr || obj?.length !== prevValue?.length\<close>, also kept as \<open>isArrDiff\<close>.
\<close>

definition lengthDiffers :: "val \<Rightarrow> val \<Rightarrow> bool" where
  "lengthDiffers obj prevValue =
     (\<not> isArray obj \<or>
      \<not> strict_eq (getProp obj (KStr ''length'')) (getProp prevValue (KStr ''length'')))"

text \<open>
  The body of the loop over the new keys for a slot whose value differs, up to the
  recursive call: the child node of the slot, the move detection, and the comparison
  with the previous value at the previous position. \<open>l_child\<close> is \<open>child\<close>, \<open>l_isMove\<close>
  tells whether \<open>didMove = true\<close> ran, \<open>l_isDiff\<close> is \<open>isDiff\<close>, \<open>l_moved\<close> is \<open>moved\<close>.
\<close>

record located =
  l_child :: nat
  l_isMove :: bool
  l_isDiff :: bool
  l_state :: state
  l_moved :: "(key \<times> nat) list"

definition locateChild ::
  "nat \<Rightarrow> val \<Rightarrow> string option \<Rightarrow> (val \<times> nat) list option \<Rightarrow> bool \<Rightarrow> bool \<Rightarrow> key \<Rightarrow> val
     \<Rightarrow> state \<Rightarrow> (key \<times> nat) list \<Rightarrow> located" where
  "locateChild parent prevValue idField keyMap isArr isArrDiff key value st moved =
     (let id = getProp value (case idField of None \<Rightarrow> KUndef | Some f \<Rightarrow> KStr f);
          (child0, st1) = getChildNode st parent key;
          keyChild = (if isArr \<and> id \<noteq> VUndef
                      then (case keyMap of None \<Rightarrow> None | Some m \<Rightarrow> keyMap_get m id)
                      else None)
      in (case keyChild of
            None \<Rightarrow> \<lparr>l_child = child0, l_isMove = False, l_isDiff = True,
                      l_state = st1, l_moved = moved\<rparr>
          | Some kc \<Rightarrow>
              (if KNum kc \<noteq> key then
                 (if isArrDiff then
                    (let (c, s) = getChildNode st1 parent (KNum kc)
                     in \<lparr>l_child = c, l_isMove = True,
                         l_isDiff = (\<not> strict_eq (getProp prevValue (KNum kc)) value),
                         l_state = setNodeKey c key s, l_moved = moved @ [(key, c)]\<rparr>)
                  else \<lparr>l_child = child0, l_isMove = True,
                        l_isDiff = (\<not> strict_eq (getProp prevValue (KNum kc)) value),
                        l_state = st1, l_moved = moved\<rparr>)
               else \<lparr>l_child = child0, l_isMove = False, l_isDiff = True,
                     l_state = st1, l_moved = moved\<rparr>)))"

text \<open>The direct notification of a child with listeners, in either loop.\<close>

definition notifyRemoved :: "nat \<Rightarrow> val \<Rightarrow> state \<Rightarrow> state" where
  "notifyRemoved child prev st =
     (if listeners (nodes st child) \<noteq> None
      then emit (DoNotify child VUndef [] VUndef prev 0 False) st
      else st)"

definition notifyChanged :: "bool \<Rightarrow> val \<Rightarrow> val \<Rightarrow> located \<Rightarrow> state \<Rightarrow> state" where
  "notifyChanged isArrDiff value prev loc st =
     (if (l_isDiff loc \<or> \<not> isArrDiff) \<and> listeners (nodes st (l_child loc)) \<noteq> None
      then emit (DoNotify (l_child loc) value [] value prev 0 (\<not> isArrDiff)) st
      else st)"

subsection \<open>Facts about the measure\<close>

lemma vsize_pos: "0 < vsize v" by (cases v) auto

lemma eweight_le: "eweight v \<le> vsize v" by (cases v) auto

lemma eweight_nonprim: "\<not> isPrimitive np v \<Longrightarrow> eweight v = vsize v" by (cases v) auto

lemma esize_Cons: "esize ((k, v) # es) = eweight v + esize es" by (simp add: esize_def)

lemma esize_zip: "length ks = length xs \<Longrightarrow> esize (zip ks xs) = sum_list (map eweight xs)"
  by (induction ks xs rule: list_induct2) (auto simp: esize_def)

lemma esize_zip_KNum: "esize (zip (map f [0..<length xs]) xs) = sum_list (map eweight xs)"
  by (rule esize_zip) simp

lemma sum_eweight_le: "sum_list (map eweight xs) \<le> sum_list (map vsize xs)"
  by (induction xs) (auto intro: add_mono eweight_le)

lemma esize_entries: "esize (entries v) < vsize v"
proof (cases v)
  case (VObj r kvs)
  have "esize kvs \<le> sum_list (map (\<lambda>kv. vsize (snd kv)) kvs)"
    unfolding esize_def by (induction kvs) (auto intro: add_mono eweight_le)
  then show ?thesis using VObj by simp
next
  case (VArr r xs)
  then show ?thesis using sum_eweight_le[of xs] by (simp add: esize_zip_KNum)
next
  case (VStr s)
  have "esize (zip (map KNum [0..<length s]) (map (\<lambda>c. VStr [c]) s)) = 0"
    unfolding esize_def by (auto simp: in_set_zip)
  then show ?thesis using VStr by simp
qed (auto simp: esize_def)

lemma lookup_vsize: "lookup kvs k = VUndef \<or> vsize (lookup kvs k) \<le> sum_list (map (\<lambda>kv. vsize (snd kv)) kvs)"
  by (induction kvs) auto

lemma nth_vsize: "i < length xs \<Longrightarrow> vsize (xs ! i) \<le> sum_list (map vsize xs)"
  by (induction xs arbitrary: i) (auto simp: nth_Cons split: nat.splits intro: trans_le_add2)

lemma getProp_vsize: "vsize (getProp pv k) \<le> vsize pv"
proof (cases pv)
  case (VObj r kvs)
  then show ?thesis using lookup_vsize[of kvs "normKey k"] by auto
next
  case (VArr r xs)
  then show ?thesis using nth_vsize[of _ xs] by (cases k) (auto intro: le_SucI)
next
  case (VStr s)
  then show ?thesis by (cases k) auto
qed auto

lemma esize_entries_Suc: "Suc (esize (entries pv)) < vsize obj + vsize pv"
  using esize_entries[of pv] vsize_pos[of obj] by linarith

lemma descend_le: "\<not> isPrimitive np v \<Longrightarrow> vsize v + vsize (getProp pv k) \<le> eweight v + esize es + vsize pv"
  using getProp_vsize[of pv k] by (simp add: eweight_nonprim)

text \<open>
  \<open>updateNodes(parent, obj, prevValue)\<close> with its two loops: \<open>removedLoop\<close> over the keys
  of the previous value that the new one lacks, \<open>changedLoop\<close> over the keys of the new
  value, carrying the state, \<open>hasADiff\<close>, \<open>didMove\<close> and \<open>moved\<close>. The result \<open>undefined\<close> of the
  source is \<open>False\<close>. \<open>prevValue && (!obj || obj.hasOwnProperty)\<close> is the truthiness of
  \<open>prevValue\<close>, every truthy value having \<open>hasOwnProperty\<close>.
\<close>

function updateNodes :: "bool \<Rightarrow> state \<Rightarrow> nat \<Rightarrow> val \<Rightarrow> val \<Rightarrow> bool \<times> state"
  and removedLoop :: "bool \<Rightarrow> nat \<Rightarrow> val \<Rightarrow> (key \<times> val) list \<Rightarrow> state \<Rightarrow> state"
  and changedLoop :: "bool \<Rightarrow> nat \<Rightarrow> val \<Rightarrow> string option \<Rightarrow> (val \<times> nat) list option \<Rightarrow> bool \<Rightarrow> bool
      \<Rightarrow> (key \<times> val) list \<Rightarrow> state \<times> bool \<times> bool \<times> (key \<times> nat) list
      \<Rightarrow> state \<times> bool \<times> bool \<times> (key \<times> nat) list"
where
  "updateNodes np st parent obj prevValue =
     (if truthy obj then
        (case changedLoop np parent prevValue (idFieldOf obj prevValue) (keyMapOf obj prevValue)
                (isArray obj) (lengthDiffers obj prevValue) (entries obj)
                (if isArray obj \<and> isArray prevValue then st
                 else if truthy prevValue then removedLoop np parent obj (entries prevValue) st
                 else st,
                 lengthDiffers obj prevValue, False, []) of
           (st2, hasADiff, didMove, moved) \<Rightarrow>
              (hasADiff \<or> didMove, foldl (setChild parent) st2 moved))
      else if truthy prevValue
      then (True, if isArray obj \<and> isArray prevValue then st
                  else removedLoop np parent obj (entries prevValue) st)
      else (False, st))"
| "removedLoop np parent obj [] st = st"
| "removedLoop np parent obj ((key, prev) # es) st =
     (if \<not> keysIncludes obj key then
        (case getChildNode st parent key of
           (child, st1) \<Rightarrow>
              removedLoop np parent obj es
                (notifyRemoved child prev
                   (if \<not> isPrimitive np prev
                    then snd (updateNodes np st1 child VUndef prev)
                    else st1)))
      else removedLoop np parent obj es st)"
| "changedLoop np parent prevValue idField keyMap isArr isArrDiff [] acc = acc"
| "changedLoop np parent prevValue idField keyMap isArr isArrDiff ((key, value) # es)
     (st, hasADiff, didMove, moved) =
     (if strict_eq value (getProp prevValue key) then
        changedLoop np parent prevValue idField keyMap isArr isArrDiff es
          (st, hasADiff, didMove, moved)
      else
        (let loc = locateChild parent prevValue idField keyMap isArr isArrDiff key value st moved
         in changedLoop np parent prevValue idField keyMap isArr isArrDiff es
              (notifyChanged isArrDiff value (getProp prevValue key) loc
                 (if l_isDiff loc \<and> \<not> isPrimitive np value
                  then snd (updateNodes np (l_state loc) (l_child loc) value (getProp prevValue key))
                  else l_state loc),
               hasADiff \<or> l_isDiff loc,
               didMove \<or> l_isMove loc,
               l_moved loc)))"
  by pat_completeness auto
termination
  apply (relation "inv_image (less_than <*lex*> less_than)
     (\<lambda>x. case x of
        Inl (np, st, parent, obj, prevValue) \<Rightarrow> (vsize obj + vsize prevValue, 0::nat)
      | Inr (Inl (np, parent, obj, es, st)) \<Rightarrow>
          (Suc (esize es), 1 + length es)
      | Inr (Inr (np, parent, prevValue, idField, keyMap, isArr, isArrDiff, es, acc)) \<Rightarrow>
          (esize es + vsize prevValue, 1 + length es))")
  apply (simp_all add: esize_Cons eweight_nonprim esize_entries esize_entries_Suc)
  apply (auto dest: descend_le le_imp_less_or_eq)
  done


section \<open>The write pipeline\<close>

text \<open>What \<open>isPrimitive\<close>, \<open>isObject\<close> and \<open>isArray\<close> say of an argument as passed.\<close>

fun argIsPrimitive :: "bool \<Rightarrow> arg \<Rightarrow> bool" where
  "argIsPrimitive np (Plain v) = isPrimitive np v"
| "argIsPrimitive np (Observable v) = False"
| "argIsPrimitive np SymbolUndef = isPrimitive np VUndef"

fun argIsStructural :: "arg \<Rightarrow> bool" where
  "argIsStructural (Plain v) = (isObject v \<or> isArray v)"
| "argIsStructural (Observable v) = True"
| "argIsStructural SymbolUndef = False"

text \<open>
  \<open>level ?? prevValue === undefined ? -1 : hasADiff ? 0 : 1\<close>, which JavaScript reads as
  \<open>(level ?? (prevValue === undefined)) ? -1 : (hasADiff ? 0 : 1)\<close>.
\<close>

definition notifyLevel :: "int option \<Rightarrow> val \<Rightarrow> bool \<Rightarrow> int" where
  "notifyLevel level prevValue hasADiff =
     (if (case level of Some l \<Rightarrow> l \<noteq> 0 | None \<Rightarrow> prevValue = VUndef) then - 1
      else if hasADiff then 0 else 1)"

text \<open>
  "Compute newValue if newValue is a function or an observable": an updater is called
  with the previous value unless \<open>inAssign\<close> is set, an observable is read, the delete
  sentinel has become \<open>undefined\<close>.
\<close>

definition computeNewValue :: "env \<Rightarrow> state \<Rightarrow> arg \<Rightarrow> val \<Rightarrow> val \<times> state" where
  "computeNewValue E st newValue0 prevValue =
     (case newValue0 of
        Plain v \<Rightarrow>
          (case v of
             VFun f \<Rightarrow>
               (if \<not> inAssign st
                then (callFn E f prevValue, st\<lparr>calls := calls st @ [(f, prevValue)]\<rparr>)
                else (v, st))
           | _ \<Rightarrow> (v, st))
      | Observable v \<Rightarrow> (v, st)
      | SymbolUndef \<Rightarrow> (VUndef, st))"

text \<open>
  \<open>setKey(node, key, newValue, level)\<close> in its two halves. A throw is \<open>Inl\<close> with the
  state as the exception leaves it. Reading an observable argument with \<open>get()\<close> touches
  another tree and leaves no trace here.

  The first half runs from the lock check to "Save the new value" and hands over what the
  second half reads: the resolved \<open>node\<close> and \<open>key\<close>, \<open>isRoot\<close>, \<open>childNode\<close>,
  \<open>isDelete\<close>, \<open>isPrim\<close>, \<open>prevValue\<close>, the computed \<open>newValue\<close>, and the state.
\<close>

record stored =
  s_node :: nat
  s_key :: key
  s_isRoot :: bool
  s_childNode :: nat
  s_isDelete :: bool
  s_isPrim :: bool
  s_prevValue :: val
  s_newValue :: val
  s_state :: state

text \<open>
  The store itself, once the target is known: the previous value is saved, the new value
  computed and written (or the key deleted). For a root the container is the root wrapper
  and the key \<open>_\<close>.
\<close>

definition saveValue ::
  "env \<Rightarrow> state \<Rightarrow> nat \<Rightarrow> key \<Rightarrow> bool \<Rightarrow> nat \<Rightarrow> arg \<Rightarrow> (error \<times> state) + stored" where
  "saveValue E st4 node key1 isRoot childNode newValue0 =
     (let isDelete = (newValue0 = SymbolUndef);
          prevValue = (if isRoot then rval st4 else getProp (getNodeValue st4 node) key1);
          (newValue, st5) = computeNewValue E st4 newValue0 prevValue
      in (case (if isRoot
                then Some (if isDelete then VUndef else newValue)
                else updateAt (rval st5) (nodePath (nodes st5) node)
                       (\<lambda>c. if isDelete then delProp c key1 else setProp c key1 newValue)) of
            None \<Rightarrow> Inl (TypeError, st5)
          | Some root' \<Rightarrow>
              Inr \<lparr>s_node = node, s_key = key1, s_isRoot = isRoot,
                   s_childNode = childNode, s_isDelete = isDelete,
                   s_isPrim = argIsPrimitive (nullish E) newValue0,
                   s_prevValue = prevValue, s_newValue = newValue,
                   s_state = st5\<lparr>rval := root'\<rparr>\<rparr>))"

text \<open>
  From \<open>inSet = true\<close> to the value of the parent: \<open>isRoot\<close>, the child node "for updating
  and notifying", \<open>untrack\<close>, and the parent's value, created if missing.
\<close>

definition isRootWrite :: "env \<Rightarrow> state \<Rightarrow> nat \<Rightarrow> key \<Rightarrow> arg \<Rightarrow> bool" where
  "isRootWrite E st1 node key1 newValue0 \<longleftrightarrow>
     key1 = KSymbolUndef \<or>
     (nparent (nodes st1 node) = None \<and> key1 = KStr ''value''
      \<and> argIsPrimitive (nullish E) newValue0)"

definition resolveChild ::
  "env \<Rightarrow> state \<Rightarrow> nat \<Rightarrow> key \<Rightarrow> arg \<Rightarrow> (error \<times> state) + stored" where
  "resolveChild E st1 node key1 newValue0 =
     (let isRoot = isRootWrite E st1 node key1 newValue0;
          (childNode, st2) = (if isRoot then (node, st1) else getChildNode st1 node key1);
          st3 = emit (Untrack childNode) st2
      in (case (if isRoot then Some st3 else ensureNodeValue st3 node) of
            None \<Rightarrow> Inl (TypeError, st3)
          | Some st4 \<Rightarrow> saveValue E st4 node key1 isRoot childNode newValue0))"

text \<open>
  The start: the lock check, and the step from a primitive's \<open>value\<close> key to the node
  itself under its parent. Without a parent there, \<open>node\<close> is \<open>undefined\<close> and reading
  \<open>node.parent\<close> throws, after \<open>inSet = true\<close>.
\<close>

definition unwrapsValue :: "env \<Rightarrow> state \<Rightarrow> nat \<Rightarrow> key \<Rightarrow> arg \<Rightarrow> bool" where
  "unwrapsValue E st node0 key0 newValue0 \<longleftrightarrow>
     argIsPrimitive (nullish E) newValue0 \<and> key0 = KStr ''value''
     \<and> isPrimitive (nullish E) (getNodeValue st node0)"

definition setKey_store ::
  "env \<Rightarrow> state \<Rightarrow> nat \<Rightarrow> key \<Rightarrow> arg \<Rightarrow> (error \<times> state) + stored" where
  "setKey_store E st node0 key0 newValue0 =
     (if locked st then Inl (LockedError, st)
      else
        (let unwrap = unwrapsValue E st node0 key0 newValue0;
             key1 = (if unwrap then nkey (nodes st node0) else key0);
             st1 = st\<lparr>inSet := True\<rparr>
         in (case (if unwrap then nparent (nodes st node0) else Some node0) of
               None \<Rightarrow> Inl (TypeError, st1)
             | Some node \<Rightarrow> resolveChild E st1 node key1 newValue0)))"

text \<open>
  The second half, from \<open>beginBatch()\<close> to the returned proxy, whose node is the result.
  First the batch is opened and \<open>hasADiff\<close> computed: "If new value is an object or array
  update notify down the tree", else it is \<open>isPrim\<close>.
\<close>

definition diffOf :: "env \<Rightarrow> stored \<Rightarrow> bool \<times> state" where
  "diffOf E c =
     (if \<not> s_isPrim c \<or> \<not> isPrimitive (nullish E) (s_prevValue c)
      then updateNodes (nullish E) (beginBatch (s_state c)) (s_childNode c)
             (s_newValue c) (s_prevValue c)
      else (s_isPrim c, beginBatch (s_state c)))"

definition setKey_notify :: "env \<Rightarrow> stored \<Rightarrow> int option \<Rightarrow> nat \<times> state" where
  "setKey_notify E c level =
     (let np = nullish E;
          isPrim = s_isPrim c;
          newValue = s_newValue c;
          prevValue = s_prevValue c;
          diffed = (\<not> isPrim \<or> \<not> isPrimitive np prevValue);
          (hasADiff, st8) = diffOf E c;
          whenOptimizedOnlyIf =
             (diffed \<and> isArray newValue \<and>
              \<not> strict_eq (getProp newValue (KStr ''length''))
                           (getProp prevValue (KStr ''length'')));
          st9 = (if \<not> isPrim \<or> \<not> strict_eq newValue prevValue
                 then emit (Notify (if isPrim \<and> s_isRoot c then s_node c else s_childNode c)
                              newValue prevValue
                              (notifyLevel level prevValue hasADiff)
                              whenOptimizedOnlyIf) st8
                 else st8);
          st10 = endBatch st9;
          st11 = st10\<lparr>inSet := False\<rparr>
      in (if s_isRoot c then (s_node c, st11)
          else getChildNode st11 (s_node c) (s_key c)))"

definition setKey ::
  "env \<Rightarrow> state \<Rightarrow> nat \<Rightarrow> key \<Rightarrow> arg \<Rightarrow> int option \<Rightarrow> (error \<times> state) + (nat \<times> state)" where
  "setKey E st node key newValue level =
     (case setKey_store E st node key newValue of
        Inl e \<Rightarrow> Inl e
      | Inr c \<Rightarrow> Inr (setKey_notify E c level))"

text \<open>\<open>set(node, newValue)\<close>, the verb of a proxy.\<close>

definition set_node :: "env \<Rightarrow> state \<Rightarrow> nat \<Rightarrow> arg \<Rightarrow> (error \<times> state) + (nat \<times> state)" where
  "set_node E st node newValue =
     (case nparent (nodes st node) of
        None \<Rightarrow> setKey E st node KSymbolUndef newValue None
      | Some p \<Rightarrow> setKey E st p (nkey (nodes st node)) newValue None)"

text \<open>\<open>deleteFn(node, key)\<close>; an absent key is \<open>KUndef\<close>.\<close>

definition deleteFn :: "env \<Rightarrow> state \<Rightarrow> nat \<Rightarrow> key \<Rightarrow> (error \<times> state) + state" where
  "deleteFn E st node key =
     (let (node', key') =
            (case nparent (nodes st node) of
               Some p \<Rightarrow> (if key = KUndef then (p, nkey (nodes st node)) else (node, key))
             | None \<Rightarrow> (node, key))
      in (case setKey E st node' key' SymbolUndef (Some (- 1)) of
            Inl e \<Rightarrow> Inl e
          | Inr (_, st') \<Rightarrow> Inr st'))"

section \<open>The proxy traps\<close>

text \<open>\<open>proxyHandler.set\<close>: the result is the boolean the trap returns.\<close>

definition proxyHandler_set ::
  "env \<Rightarrow> state \<Rightarrow> nat \<Rightarrow> key \<Rightarrow> arg \<Rightarrow> (error \<times> state) + (bool \<times> state)" where
  "proxyHandler_set E st node prop value =
     (if inSet st then Inr (True, emit (ReflectSet node prop value) st)
      else if \<not> inAssign st \<and> safeMode st \<noteq> 0 \<and> safeMode st = 2 then Inr (False, st)
      else
        (let (refused, st1) =
               (if \<not> inAssign st \<and> safeMode st \<noteq> 0
                then (let (c, s) = getChildNode st node prop;
                          existing = getNodeValue s c
                      in (isObject existing \<or> isArray existing \<or> argIsStructural value, s))
                else (False, st))
         in if refused then Inr (False, st1)
            else (case setKey E st1 node prop value None of
                    Inl e \<Rightarrow> Inl e
                  | Inr (_, st2) \<Rightarrow> Inr (True, st2))))"

text \<open>\<open>proxyHandler.deleteProperty\<close>.\<close>

definition proxyHandler_deleteProperty ::
  "env \<Rightarrow> state \<Rightarrow> nat \<Rightarrow> key \<Rightarrow> (error \<times> state) + (bool \<times> state)" where
  "proxyHandler_deleteProperty E st target prop =
     (if inSet st then Inr (True, emit (ReflectDelete target prop) st)
      else if safeMode st \<noteq> 0 then Inr (False, st)
      else
        (let st1 = (if development E \<and> isTracking st then emit ConsoleError st else st)
         in (case deleteFn E st1 target prop of
               Inl e \<Rightarrow> Inl e
             | Inr st2 \<Rightarrow> Inr (True, st2))))"

section \<open>Assign\<close>

text \<open>
  \<open>Object.assign(proxy, value)\<close>: one \<open>[[Set]]\<close> on the proxy per own enumerable property
  of \<open>value\<close>, in order; a trap that returns \<open>false\<close> makes \<open>Object.assign\<close> throw a
  TypeError.
\<close>

fun objectAssign ::
  "env \<Rightarrow> nat \<Rightarrow> (key \<times> val) list \<Rightarrow> state \<Rightarrow> (error \<times> state) + state" where
  "objectAssign E node [] st = Inr st"
| "objectAssign E node ((k, v) # es) st =
     (case proxyHandler_set E st node k (Plain v) of
        Inl e \<Rightarrow> Inl e
      | Inr (ok, st') \<Rightarrow> (if ok then objectAssign E node es st' else Inl (TypeError, st')))"

text \<open>The coercion at the start of \<open>assign\<close>: \<open>if (isPrimitive(node.root._)) node.root._ = {}\<close>.\<close>

definition coerceRoot :: "env \<Rightarrow> state \<Rightarrow> state" where
  "coerceRoot E st =
     (if isPrimitive (nullish E) (rval st)
      then st\<lparr>rval := VObj (nextRef st) [], nextRef := Suc (nextRef st)\<rparr>
      else st)"

text \<open>\<open>assign(node, value)\<close>; the result is the node of the returned proxy.\<close>

definition assign :: "env \<Rightarrow> state \<Rightarrow> nat \<Rightarrow> val \<Rightarrow> (error \<times> state) + (nat \<times> state)" where
  "assign E st node value =
     (let st1 = beginBatch st;
          st2 = coerceRoot E st1;
          st3 = st2\<lparr>inAssign := True\<rparr>
      in (case objectAssign E node (entries value) st3 of
            Inl e \<Rightarrow> Inl e
          | Inr st4 \<Rightarrow>
              (let st5 = st4\<lparr>inAssign := False\<rparr>;
                   st6 = endBatch st5
               in Inr (node, st6))))"





section \<open>Creating an observable\<close>

text \<open>
  \<open>observable(value, safe)\<close> for a value that is not a promise: the root wrapper with
  \<open>safeMode\<close> 2, 0 or 1 for \<open>safe\<close> true, false or absent, and the root node, which takes
  id 0 of a fresh counter. References of the value are below \<open>maxRef\<close>.
\<close>

fun maxRef :: "val \<Rightarrow> nat" where
  "maxRef (VObj r kvs) = max (Suc r) (fold (\<lambda>kv m. max (maxRef (snd kv)) m) kvs 0)"
| "maxRef (VArr r xs) = max (Suc r) (fold (\<lambda>v m. max (maxRef v) m) xs 0)"
| "maxRef (VFun r) = Suc r"
| "maxRef _ = 0"

definition observable :: "val \<Rightarrow> bool option \<Rightarrow> state" where
  "observable value safe =
     \<lparr>rval = value,
      safeMode = (case safe of Some True \<Rightarrow> 2 | Some False \<Rightarrow> 0 | None \<Rightarrow> 1),
      locked = False,
      activate = None,
      nodes = (\<lambda>_. \<lparr>nparent = None, nkey = KUndef, children = (\<lambda>_. None), listeners = None\<rparr>),
      nextNodeID = 1,
      inSet = False,
      inAssign = False,
      batchDepth = 0,
      isTracking = False,
      events = [],
      calls = [],
      activations = 0,
      nextRef = maxRef value\<rparr>"

text \<open>
  An environment for the examples: a development build in which \<open>undefined\<close> and \<open>null\<close>
  are not primitive, the function value 0 is the identity updater \<open>(v) => v\<close> and every
  other one returns its own reference as a number, and the activate hook \<open>h\<close> hydrates the
  root with the number \<open>h\<close>.
\<close>

definition exampleEnv :: env where
  "exampleEnv =
     \<lparr>nullish = False,
      callFn = (\<lambda>f v. if f = 0 then v else VNum (int f)),
      development = True,
      runActivate = (\<lambda>h st. st\<lparr>rval := VNum (int h)\<rparr>)\<rparr>"



section \<open>The frame of the diff\<close>

declare updateNodes.simps [simp del]














section \<open>The primitive wrapper: reads\<close>

text \<open>
  C8. On a primitive-root wrapper, \<open>peek()\<close> runs the root's activate hook if there is
  one and then clears it, and returns the raw root value (the one the hook left): with a
  hook \<open>h\<close> the result is the root value of the state \<open>runActivate E h st\<close>, and the new
  state is that state with the hook cleared and one more run counted; without a hook the
  result is the root value and the state is unchanged. So a later read finds no hook and
  runs nothing: a second \<open>peek\<close> returns the same value and leaves the state as the first
  left it. \<open>peek\<close> records nothing itself: the recorded calls are those of the state the
  hook left. \<open>get()\<close> records a tracked (deep) dependency on the node and is then exactly
  \<open>peek()\<close>.
\<close>

theorem primitive_peek_get:
  "peek E st =
     (case activate st of
        None \<Rightarrow> (rval st, st)
      | Some h \<Rightarrow>
          (rval (runActivate E h st),
           (runActivate E h st)\<lparr>activations := Suc (activations (runActivate E h st)),
                                 activate := None\<rparr>))
   \<and> activate (snd (peek E st)) = None
   \<and> fst (peek E st) = rval (snd (peek E st))
   \<and> activations (snd (peek E st)) =
       (case activate st of None \<Rightarrow> activations st
        | Some h \<Rightarrow> Suc (activations (runActivate E h st)))
   \<and> events (snd (peek E st)) =
       events (case activate st of None \<Rightarrow> st | Some h \<Rightarrow> runActivate E h st)
   \<and> peek E (snd (peek E st)) = (fst (peek E st), snd (peek E st))
   \<and> (if activate st = None then peek E st = (rval st, st) else True)
   \<and> get E st n = peek E (st\<lparr>events := events st @ [UpdateTracking n False]\<rparr>)
   \<and> get E st n =
       (case activate st of
          None \<Rightarrow> (rval st, st\<lparr>events := events st @ [UpdateTracking n False]\<rparr>)
        | Some h \<Rightarrow>
            (rval (runActivate E h (st\<lparr>events := events st @ [UpdateTracking n False]\<rparr>)),
             (runActivate E h (st\<lparr>events := events st @ [UpdateTracking n False]\<rparr>))
               \<lparr>activations :=
                   Suc (activations (runActivate E h (st\<lparr>events := events st @ [UpdateTracking n False]\<rparr>))),
                activate := None\<rparr>))"
  by (simp add: peek_def get_def emit_def Let_def split: option.splits)

theorem primitive_peek_get_witness:
  "peek exampleEnv ((observable (VNum 0) None)\<lparr>activate := Some 7\<rparr>) =
     (VNum 7, (observable (VNum 0) None)\<lparr>rval := VNum 7, activations := 1, activate := None\<rparr>)
   \<and> peek exampleEnv (snd (peek exampleEnv ((observable (VNum 0) None)\<lparr>activate := Some 7\<rparr>))) =
     (VNum 7, (observable (VNum 0) None)\<lparr>rval := VNum 7, activations := 1, activate := None\<rparr>)"
proof -
  let ?st = "(observable (VNum 0) None)\<lparr>activate := Some 7\<rparr>"
  note t = primitive_peek_get[of exampleEnv ?st 0]
  have a: "peek exampleEnv ?st =
     (VNum 7, (observable (VNum 0) None)\<lparr>rval := VNum 7, activations := 1, activate := None\<rparr>)"
    using conjunct1[OF t] by (simp add: observable_def exampleEnv_def)
  have b: "peek exampleEnv (snd (peek exampleEnv ?st)) = (fst (peek exampleEnv ?st), snd (peek exampleEnv ?st))"
    using t by blast
  show ?thesis using a b by simp
qed

section \<open>The primitive wrapper: writes\<close>

text \<open>
  C9. On a primitive-root wrapper whose root is locked, \<open>set\<close> with an updater function
  still calls the updater, with the current root value, before the locked error is
  thrown; the root value is unchanged and no notification is recorded.
\<close>

theorem primitive_set_locked_updater:
  assumes "locked st"
  shows "primitive_set E st n (VFun f) = Inl (LockedError, st\<lparr>calls := calls st @ [(f, rval st)]\<rparr>)
         \<and> rval (st\<lparr>calls := calls st @ [(f, rval st)]\<rparr>) = rval st
         \<and> events (st\<lparr>calls := calls st @ [(f, rval st)]\<rparr>) = events st"
  using assms by (simp add: primitive_set_def)

theorem primitive_set_locked_updater_witness:
  "locked ((observable (VNum 5) None)\<lparr>locked := True\<rparr>)
   \<and> primitive_set exampleEnv ((observable (VNum 5) None)\<lparr>locked := True\<rparr>) 0 (VFun 0) =
       Inl (LockedError, (observable (VNum 5) None)\<lparr>locked := True, calls := [(0, VNum 5)]\<rparr>)"
  using primitive_set_locked_updater[of "(observable (VNum 5) None)\<lparr>locked := True\<rparr>" exampleEnv 0 0]
  by (simp add: observable_def)

text \<open>
  C10. On a primitive-root wrapper that is not locked, \<open>set(v)\<close> stores \<open>v\<close> (the result
  of the updater if \<open>v\<close> is a function) and records exactly one notification, at level 0,
  with the old root value as previous value. No equality check comes first: setting the
  current value again records the notification too, with previous and new value equal.
\<close>

theorem primitive_set_always_notifies:
  assumes "\<not> locked st"
  shows "primitive_set E st n v =
           Inr (st\<lparr>calls := (case v of VFun f \<Rightarrow> calls st @ [(f, rval st)] | _ \<Rightarrow> calls st),
                   rval := (case v of VFun f \<Rightarrow> callFn E f (rval st) | _ \<Rightarrow> v),
                   events := events st @
                     [DoNotify n (case v of VFun f \<Rightarrow> callFn E f (rval st) | _ \<Rightarrow> v) []
                        (case v of VFun f \<Rightarrow> callFn E f (rval st) | _ \<Rightarrow> v) (rval st) 0 False]\<rparr>)
         \<and> (if isFunction (rval st) then True
             else primitive_set E st n (rval st) =
                    Inr (st\<lparr>events := events st @
                           [DoNotify n (rval st) [] (rval st) (rval st) 0 False]\<rparr>))"
proof -
  have a: "primitive_set E st n v =
           Inr (st\<lparr>calls := (case v of VFun f \<Rightarrow> calls st @ [(f, rval st)] | _ \<Rightarrow> calls st),
                   rval := (case v of VFun f \<Rightarrow> callFn E f (rval st) | _ \<Rightarrow> v),
                   events := events st @
                     [DoNotify n (case v of VFun f \<Rightarrow> callFn E f (rval st) | _ \<Rightarrow> v) []
                        (case v of VFun f \<Rightarrow> callFn E f (rval st) | _ \<Rightarrow> v) (rval st) 0 False]\<rparr>)"
    using assms by (cases v) (simp_all add: primitive_set_def emit_def)
  have b: "\<not> isFunction (rval st) \<Longrightarrow> primitive_set E st n (rval st) =
                    Inr (st\<lparr>events := events st @
                           [DoNotify n (rval st) [] (rval st) (rval st) 0 False]\<rparr>)"
    using assms by (cases "rval st") (simp_all add: primitive_set_def emit_def)
  show ?thesis using a b by simp
qed

theorem primitive_set_always_notifies_witness:
  "\<not> locked (observable (VNum 5) None)
   \<and> (case primitive_set exampleEnv (observable (VNum 5) None) 0 (VNum 5) of
        Inr st' \<Rightarrow> rval st' = VNum 5 \<and> events st' = [DoNotify 0 (VNum 5) [] (VNum 5) (VNum 5) 0 False]
      | Inl _ \<Rightarrow> False)"
  using primitive_set_always_notifies[of "observable (VNum 5) None" exampleEnv 0 "VNum 5"]
  by (simp add: observable_def)

section \<open>Writes on a locked root\<close>

lemma setKey_store_locked: "locked st \<Longrightarrow> setKey_store E st node key v = Inl (LockedError, st)"
  by (simp add: setKey_store_def)

lemma setKey_locked: "locked st \<Longrightarrow> setKey E st node key v level = Inl (LockedError, st)"
  by (simp add: setKey_def setKey_store_locked)

text \<open>
  The set paths. A \<open>setKey\<close> made while the root's \<open>locked\<close> flag is set throws the
  locked-observable error at once and leaves the whole state as it was, for any key, value
  and level (a nested object is one call, so no field of it is written); so do the verb
  \<open>set\<close>, \<open>delete\<close>, and a property write through the proxy that reaches the pipeline. On
  a primitive-root wrapper \<open>set\<close> throws the same error with root value, notifications
  and nodes unchanged.
\<close>

theorem locked_write_rejected:
  assumes "locked st"
  shows "setKey E st node key v level = Inl (LockedError, st)
         \<and> set_node E st node v = Inl (LockedError, st)
         \<and> deleteFn E st node key = Inl (LockedError, st)
         \<and> (if inSet st \<or> (\<not> inAssign st \<and> safeMode st \<noteq> 0) then True
             else proxyHandler_set E st node key v = Inl (LockedError, st))
         \<and> (case primitive_set E st node pv of
               Inl (e, st') \<Rightarrow> e = LockedError \<and> rval st' = rval st \<and> events st' = events st
                                \<and> nodes st' = nodes st \<and> (if isFunction pv then True else st' = st)
             | Inr _ \<Rightarrow> False)"
proof -
  have a: "\<And>n k l. setKey E st n k v l = Inl (LockedError, st)"
    using assms by (simp add: setKey_locked)
  have b: "\<And>n k l. setKey E st n k SymbolUndef l = Inl (LockedError, st)"
    using assms by (simp add: setKey_locked)
  have c: "set_node E st node v = Inl (LockedError, st)"
    by (simp add: set_node_def a split: option.splits)
  have d: "deleteFn E st node key = Inl (LockedError, st)"
    by (simp add: deleteFn_def b Let_def split: option.splits prod.splits)
  have e: "\<not> inSet st \<Longrightarrow> \<not> (\<not> inAssign st \<and> safeMode st \<noteq> 0)
           \<Longrightarrow> proxyHandler_set E st node key v = Inl (LockedError, st)"
    by (auto simp add: proxyHandler_set_def a)
  have f: "(case primitive_set E st node pv of
               Inl (e, st') \<Rightarrow> e = LockedError \<and> rval st' = rval st \<and> events st' = events st
                                \<and> nodes st' = nodes st \<and> (if isFunction pv then True else st' = st)
             | Inr _ \<Rightarrow> False)"
    using assms by (cases pv) (simp_all add: primitive_set_def)
  show ?thesis using a c d e f by simp
qed

theorem locked_write_rejected_witness:
  "locked ((observable (VObj 1 [(KStr ''a'', VNum 1)]) None)\<lparr>locked := True\<rparr>)
   \<and> setKey exampleEnv ((observable (VObj 1 [(KStr ''a'', VNum 1)]) None)\<lparr>locked := True\<rparr>) 0 (KStr ''a'')
        (Plain (VObj 2 [(KStr ''b'', VNum 2), (KStr ''c'', VNum 3)])) None
      = Inl (LockedError, (observable (VObj 1 [(KStr ''a'', VNum 1)]) None)\<lparr>locked := True\<rparr>)"
  using locked_write_rejected[of "(observable (VObj 1 [(KStr ''a'', VNum 1)]) None)\<lparr>locked := True\<rparr>"
      exampleEnv 0 "KStr ''a''" "Plain (VObj 2 [(KStr ''b'', VNum 2), (KStr ''c'', VNum 3)])" None "VNum 0"]
  by (simp add: observable_def)

text \<open>
  C1. The multi-key write does not reject atomically. \<open>assign\<close> makes a primitive root
  value an empty object before its first write reaches the lock check of \<open>setKey\<close>. Take
  \<open>observable({a: 1})\<close>, unrestricted, set to the number 5 and then locked: \<open>assign({b: 2})\<close>
  throws the locked-observable error, but the root value is now \<open>{}\<close> instead of 5, and
  the batch stays open with \<open>inAssign\<close> set; \<open>assign({})\<close> does not throw at all and
  replaces 5 by \<open>{}\<close> on the locked root.
\<close>

theorem assign_on_locked_root_coerces:
  "(case set_node exampleEnv (observable (VObj 1 [(KStr ''a'', VNum 1)]) (Some False)) 0 (Plain (VNum 5)) of
      Inr (p, st) \<Rightarrow>
        rval st = VNum 5 \<and> \<not> inSet st \<and> \<not> inAssign st \<and> batchDepth st = 0
        \<and> (case assign exampleEnv (st\<lparr>locked := True\<rparr>) 0 (VObj 7 [(KStr ''b'', VNum 2)]) of
             Inl (e, st') \<Rightarrow>
               e = LockedError \<and> rval st' = VObj 2 [] \<and> inAssign st' \<and> batchDepth st' = 1
                \<and> events st' = events st
           | Inr _ \<Rightarrow> False)
        \<and> (case assign exampleEnv (st\<lparr>locked := True\<rparr>) 0 (VObj 7 []) of
             Inr (p', st') \<Rightarrow> rval st' = VObj 2 [] \<and> locked st'
           | Inl _ \<Rightarrow> False)
    | Inl _ \<Rightarrow> False)"
  by code_simp

section \<open>Safe mode at the proxy traps\<close>

lemma getChildNode_frame:
  "rval (snd (getChildNode st n k)) = rval st \<and> events (snd (getChildNode st n k)) = events st"
  by (simp add: getChildNode_def Let_def split: option.splits)

text \<open>
  The set trap outside an internal write (neither \<open>inSet\<close> nor \<open>inAssign\<close>): in strict
  safe mode it returns \<open>false\<close> for every value and the state is unchanged; in default
  safe mode it returns \<open>false\<close> exactly when the value of the child node that the node
  holds for the key, or the new value, is an object or an array, having done no more than
  look up (and so possibly create) that child node; in every other case the write is
  handed to \<open>setKey\<close> and the trap returns \<open>true\<close>. A refusal is a result of the trap,
  never a throw.
\<close>

theorem proxy_set_safe_mode:
  assumes "\<not> inSet st" and "\<not> inAssign st"
  shows "proxyHandler_set E st node prop v =
           (if safeMode st = 2 then Inr (False, st)
            else if safeMode st = 0 then
              (case setKey E st node prop v None of
                 Inl e \<Rightarrow> Inl e | Inr (p, st2) \<Rightarrow> Inr (True, st2))
            else if isObject (getNodeValue (snd (getChildNode st node prop)) (fst (getChildNode st node prop)))
                    \<or> isArray (getNodeValue (snd (getChildNode st node prop)) (fst (getChildNode st node prop)))
                    \<or> argIsStructural v
            then Inr (False, snd (getChildNode st node prop))
            else (case setKey E (snd (getChildNode st node prop)) node prop v None of
                    Inl e \<Rightarrow> Inl e | Inr (p, st2) \<Rightarrow> Inr (True, st2)))
         \<and> rval (snd (getChildNode st node prop)) = rval st
         \<and> events (snd (getChildNode st node prop)) = events st"
  using assms
  by (auto simp add: proxyHandler_set_def getChildNode_frame Let_def split_beta split: prod.splits sum.splits)

theorem proxy_set_safe_mode_witness:
  "\<not> inSet (observable (VObj 1 [(KStr ''a'', VNum 1)]) None)
   \<and> \<not> inAssign (observable (VObj 1 [(KStr ''a'', VNum 1)]) None)
   \<and> proxyHandler_set exampleEnv (observable (VObj 1 [(KStr ''a'', VNum 1)]) None) 0 (KStr ''a'')
         (Plain (VObj 2 []))
       = Inr (False, snd (getChildNode (observable (VObj 1 [(KStr ''a'', VNum 1)]) None) 0 (KStr ''a'')))"
  using proxy_set_safe_mode[of "observable (VObj 1 [(KStr ''a'', VNum 1)]) None" exampleEnv 0
      "KStr ''a''" "Plain (VObj 2 [])"]
  by (simp add: observable_def)

text \<open>
  The claim C5 as stated, that an implicit delete is refused only in strict safe mode,
  fails in default safe mode: on \<open>observable({a: 1})\<close> the delete trap returns \<open>false\<close>
  and the state, with the property \<open>a\<close>, is unchanged.
\<close>

theorem proxy_delete_default_mode_counterexample:
  "safeMode (observable (VObj 1 [(KStr ''a'', VNum 1)]) None) = 1
   \<and> \<not> inSet (observable (VObj 1 [(KStr ''a'', VNum 1)]) None)
   \<and> proxyHandler_deleteProperty exampleEnv (observable (VObj 1 [(KStr ''a'', VNum 1)]) None) 0 (KStr ''a'')
       = Inr (False, observable (VObj 1 [(KStr ''a'', VNum 1)]) None)
   \<and> rval (observable (VObj 1 [(KStr ''a'', VNum 1)]) None) = VObj 1 [(KStr ''a'', VNum 1)]"
  by (simp add: proxyHandler_deleteProperty_def observable_def)

text \<open>
  C5, amended. An implicit property delete through a proxy (the delete trap, outside an
  internal write) is refused, with the state unchanged, in default and in strict safe mode
  alike; only in unrestricted mode (\<open>safeMode\<close> 0) does it go to the pipeline's delete,
  after a console error in a development build when a tracked evaluation is in progress.
\<close>

theorem proxy_delete_safe_mode:
  assumes "\<not> inSet st"
  shows "proxyHandler_deleteProperty E st target prop =
           (if safeMode st \<noteq> 0 then Inr (False, st)
            else (case deleteFn E (if development E \<and> isTracking st then emit ConsoleError st else st)
                         target prop of
                    Inl e \<Rightarrow> Inl e | Inr st2 \<Rightarrow> Inr (True, st2)))"
  using assms by (simp add: proxyHandler_deleteProperty_def Let_def)

theorem proxy_delete_safe_mode_witness:
  "\<not> inSet (observable (VObj 1 [(KStr ''a'', VNum 1)]) (Some False))
   \<and> proxyHandler_deleteProperty exampleEnv (observable (VObj 1 [(KStr ''a'', VNum 1)]) (Some False)) 0
         (KStr ''a'')
       = (case deleteFn exampleEnv (observable (VObj 1 [(KStr ''a'', VNum 1)]) (Some False)) 0 (KStr ''a'') of
            Inl e \<Rightarrow> Inl e | Inr st2 \<Rightarrow> Inr (True, st2))"
  using proxy_delete_safe_mode[of "observable (VObj 1 [(KStr ''a'', VNum 1)]) (Some False)" exampleEnv 0
      "KStr ''a''"]
  by (simp add: observable_def)

section \<open>What a write leaves alone\<close>














section \<open>The write pipeline under the relaxation of assign\<close>



























section \<open>Assign against its description\<close>




section \<open>Delete\<close>














section \<open>The notification of a set\<close>

text \<open>
  What \<open>setKey\<close> records after the diff is the lemma \<open>setKey_notify_events\<close> above:
  \<open>notify\<close> is called unless \<open>isPrim\<close> holds and the new value equals the previous one,
  and its level is \<open>notifyLevel\<close>, which without a level argument is \<open>-1\<close> for a previous
  value \<open>undefined\<close>, else \<open>0\<close> when \<open>hasADiff\<close> holds, else \<open>1\<close>.
\<close>

lemma notifyLevel_None:
  "notifyLevel None prev hasADiff = (if prev = VUndef then - 1 else if hasADiff then 0 else 1)"
  by (simp add: notifyLevel_def)

text \<open>
  C3. \<open>isPrim\<close> is computed from the argument as passed, before an updater function is
  called. On \<open>observable({count: 5})\<close>, setting \<open>count\<close> with the updater \<open>(v) => v\<close>
  stores the primitive 5 over the previous 5, and \<open>notify\<close> is called all the same, at
  level 0; setting \<open>count\<close> to the number 5 itself calls no \<open>notify\<close>.
\<close>

theorem updater_same_primitive_notifies:
  "(case setKey exampleEnv (observable (VObj 1 [(KStr ''count'', VNum 5)]) None) 0 (KStr ''count'')
           (Plain (VFun 0)) None of
      Inr (p, st') \<Rightarrow>
        rval st' = VObj 1 [(KStr ''count'', VNum 5)]
        \<and> calls st' = [(0, VNum 5)]
        \<and> events st' = [Untrack 1, Notify 1 (VNum 5) (VNum 5) 0 False]
    | Inl _ \<Rightarrow> False)
   \<and> (case setKey exampleEnv (observable (VObj 1 [(KStr ''count'', VNum 5)]) None) 0 (KStr ''count'')
           (Plain (VNum 5)) None of
      Inr (p, st') \<Rightarrow>
        rval st' = VObj 1 [(KStr ''count'', VNum 5)] \<and> events st' = [Untrack 1]
    | Inl _ \<Rightarrow> False)"
  by code_simp

section \<open>Array moves\<close>

text \<open>
  A well-formed node store: a child has a larger id than its parent, an id that was handed
  out, and its parent link points at the node that holds it. \<open>stable p\<close> relates a state to
  a later one that is well-formed again and has the nodes below \<open>p\<close> untouched, every
  parent link and listener set as it was, and the key of \<open>p\<close> and of every node whose
  parent is below \<open>p\<close> as it was; \<open>grows p\<close> says that the children of \<open>p\<close> are still
  where they were and that any other child of \<open>p\<close> is a new node; \<open>movedOK\<close> that the
  nodes of \<open>moved\<close> are children of \<open>p\<close>.
\<close>

definition wfNodes :: "state \<Rightarrow> bool" where
  "wfNodes st \<longleftrightarrow>
     (\<forall>q k c. children (nodes st q) k = Some c
        \<longrightarrow> q < c \<and> c < nextNodeID st \<and> nparent (nodes st c) = Some q)"




















lemma getChildNode_fresh:
  "children (nodes st p) k = None \<Longrightarrow> fst (getChildNode st p k) = nextNodeID st"
  by (simp add: getChildNode_def Let_def)



lemma emit_nodes: "nodes (emit e st) = nodes st" "nextNodeID (emit e st) = nextNodeID st"
  by (simp_all add: emit_def)

lemma emit_wf: "wfNodes (emit e st) = wfNodes st"
  by (simp add: wfNodes_def emit_nodes)

































subsection \<open>What a re-keyed node reads\<close>







subsection \<open>An example list\<close>

text \<open>
  \<open>observable({items: [{id: 1, name: 'a'}, {id: 2, name: 'b'}]})\<close> after the proxies of
  \<open>items\<close>, \<open>items[0]\<close> and \<open>items[1]\<close> were obtained: node 1 is \<open>items\<close>, node 2 its
  element 0 (the one with id 1), node 3 its element 1 (the one with id 2).
\<close>

definition element :: "nat \<Rightarrow> string \<Rightarrow> val" where
  "element i n = VObj i [(KStr ''id'', VNum (int i)), (KStr ''name'', VStr n)]"

definition itemsExample :: state where
  "itemsExample =
     snd (getChildNode
       (snd (getChildNode
         (snd (getChildNode
            (observable (VObj 10 [(KStr ''items'', VArr 11 [element 1 ''a'', element 2 ''b''])]) None)
            0 (KStr ''items'')))
         1 (KNum 0)))
       1 (KNum 1))"







subsection \<open>The claim and the code\<close>









section \<open>The set trap after a move\<close>

text \<open>
  C4. In default safe mode the trap tests the value of \<open>getChildNode(node, prop)\<close>, and
  after a move that is not the value at the key: the loop of \<open>updateNodes\<close> puts the moved
  node at its new index and leaves it at the old one as well. On the example list, after
  \<open>items\<close> is set to \<open>['y', 'z', {id: 1, name: 'a'}]\<close>, the node at index 0 of \<open>items\<close> is
  the moved node, whose key is 2 and whose value is the object. The direct write
  \<open>items[0] = 'w'\<close>, a string over the string \<open>'y'\<close>, is then refused; the same write at
  index 1 goes through.
\<close>

theorem default_mode_refuses_primitive_after_move:
  "(case setKey exampleEnv itemsExample 0 (KStr ''items'')
           (Plain (VArr 12 [VStr ''y'', VStr ''z'', element 1 ''a''])) None of
      Inr (p, st) \<Rightarrow>
        \<not> inSet st \<and> \<not> inAssign st \<and> safeMode st = 1
        \<and> getNodeValue st 1 = VArr 12 [VStr ''y'', VStr ''z'', element 1 ''a'']
        \<and> getProp (getNodeValue st 1) (KNum 0) = VStr ''y''
        \<and> children (nodes st 1) (KNum 0) = Some 2
        \<and> children (nodes st 1) (KNum 2) = Some 2
        \<and> nkey (nodes st 2) = KNum 2
        \<and> getNodeValue st 2 = element 1 ''a''
        \<and> (case proxyHandler_set exampleEnv st 1 (KNum 0) (Plain (VStr ''w'')) of
             Inr (ok, st') \<Rightarrow> \<not> ok \<and> rval st' = rval st \<and> events st' = events st
           | Inl _ \<Rightarrow> False)
        \<and> (case proxyHandler_set exampleEnv st 1 (KNum 1) (Plain (VStr ''w'')) of
             Inr (ok, st') \<Rightarrow> ok \<and> getProp (getNodeValue st' 1) (KNum 1) = VStr ''w''
           | Inl _ \<Rightarrow> False)
    | Inl _ \<Rightarrow> False)"
  by code_simp

end
